theory Spec2Isabelle
  imports Main "HOL-Library.Word"
begin

section \<open>TCP AHS: a static-window congestion controller (tcp\_ahs.c)\<close>

subsection \<open>Machine integers and constants\<close>

text \<open>
  The kernel types \<open>u8\<close>, \<open>u32\<close> and \<open>s32\<close> are words of that width. A word does not
  carry its signedness: an \<open>s32\<close> is read with \<open>sint\<close>, a \<open>u32\<close> with \<open>uint\<close> or
  \<open>unat\<close>, and the order \<open>\<le>\<close> on words is the unsigned one. Storing an \<open>s32\<close> into a
  \<open>u32\<close> member keeps the bits, so it is the identity on the word.
\<close>

type_synonym u8 = "8 word"
type_synonym u32 = "32 word"
type_synonym s32 = "32 word"

definition TCP_AHS_INIT_RTT :: u32 where
  "TCP_AHS_INIT_RTT = 1000000"

definition DEFAULT_AHS_WINDOW_SIZE :: u32 where
  "DEFAULT_AHS_WINDOW_SIZE = 65000"

subsection \<open>Per-connection data\<close>

text \<open>
  \<open>struct ahs\<close> declares four members: \<open>ahs_en\<close>, \<open>if_cong\<close>, \<open>rtt_min\<close> and \<open>rtt\<close>.
  The congestion-avoidance handler reads a fifth one, \<open>ahs->ezs_en\<close>, which the struct
  does not declare and which no handler writes.

  Modelled from the spec: the declaration of the member \<open>ezs_en\<close> is missing from the
  source; the spec asks to keep the flag read by \<open>cong_avoid\<close> and the enable flag
  \<open>ahs_en\<close> as two distinct fields, so \<open>ezs_en\<close> is a field of its own here, of the
  same type as \<open>ahs_en\<close>.
\<close>

record ahs =
  ahs_en :: u8
  if_cong :: u8
  rtt_min :: u32
  rtt :: u32
  ezs_en :: u8

text \<open>
  Of the host's \<open>struct tcp_sock\<close> the handlers touch \<open>snd_cwnd\<close> only; the slow-start
  threshold is carried along to state that it is never written. A socket \<open>sk\<close> gives
  access to both parts: \<open>tcp_sk(sk)\<close> and \<open>inet_csk_ca(sk)\<close>.
\<close>

record tcp_sock =
  snd_cwnd :: u32
  snd_ssthresh :: u32

record sock =
  tcp_sk :: tcp_sock
  inet_csk_ca :: ahs

subsection \<open>The handlers\<close>

definition tcp_ahs_init :: "sock \<Rightarrow> sock" where
  "tcp_ahs_init sk =
     sk\<lparr>inet_csk_ca := (inet_csk_ca sk)
          \<lparr>ahs_en := 1, if_cong := 0,
           rtt_min := TCP_AHS_INIT_RTT, rtt := TCP_AHS_INIT_RTT\<rparr>\<rparr>"

text \<open>
  \<open>min\<close> on two \<open>u32\<close> values compares them unsigned, as the order on words does.
  The count \<open>cnt\<close> is not used by the body.
\<close>

definition tcp_ahs_pkts_acked :: "sock \<Rightarrow> u32 \<Rightarrow> s32 \<Rightarrow> sock" where
  "tcp_ahs_pkts_acked sk cnt rtt_us =
     (let a0 = inet_csk_ca sk;
          a1 = (if 0 < sint rtt_us then a0\<lparr>rtt := rtt_us\<rparr> else a0);
          a2 = a1\<lparr>rtt_min := min (rtt_min a1) (rtt a1)\<rparr>
      in sk\<lparr>inet_csk_ca := a2,
            tcp_sk := (tcp_sk sk)\<lparr>snd_cwnd := DEFAULT_AHS_WINDOW_SIZE\<rparr>\<rparr>)"

text \<open>
  The two queries return a value and write nothing; the model returns the socket next to
  the value so that "writes nothing" is a statement about the result.
\<close>

definition tcp_ahs_undo_cwnd :: "sock \<Rightarrow> u32 \<times> sock" where
  "tcp_ahs_undo_cwnd sk = (DEFAULT_AHS_WINDOW_SIZE, sk)"

definition tcp_ahs_state :: "sock \<Rightarrow> u8 \<Rightarrow> sock" where
  "tcp_ahs_state sk ca_state = sk\<lparr>inet_csk_ca := (inet_csk_ca sk)\<lparr>ahs_en := 1\<rparr>\<rparr>"

text \<open>
  \<open>enum tcp_ca_event\<close> belongs to the host's headers; the handler never inspects the
  event, so its type stays a parameter.
\<close>

definition tcp_ahs_cwnd_event :: "sock \<Rightarrow> 'ev \<Rightarrow> sock" where
  "tcp_ahs_cwnd_event sk event =
     sk\<lparr>tcp_sk := (tcp_sk sk)\<lparr>snd_cwnd := DEFAULT_AHS_WINDOW_SIZE\<rparr>\<rparr>"

text \<open>
  \<open>tcp_veno_cong_avoid\<close> is the host's baseline algorithm, not part of this file. It
  receives the whole socket, so it is a parameter that maps a socket and the two
  counters to a socket.
\<close>

type_synonym veno = "sock \<Rightarrow> u32 \<Rightarrow> u32 \<Rightarrow> sock"

definition tcp_ahs_cong_avoid :: "veno \<Rightarrow> sock \<Rightarrow> u32 \<Rightarrow> u32 \<Rightarrow> sock" where
  "tcp_ahs_cong_avoid tcp_veno_cong_avoid sk ack acked =
     (if ezs_en (inet_csk_ca sk) = 0 then tcp_veno_cong_avoid sk ack acked
      else sk\<lparr>tcp_sk := (tcp_sk sk)\<lparr>snd_cwnd := DEFAULT_AHS_WINDOW_SIZE\<rparr>\<rparr>)"

definition tcp_ahs_ssthresh :: "sock \<Rightarrow> u32 \<times> sock" where
  "tcp_ahs_ssthresh sk = (DEFAULT_AHS_WINDOW_SIZE, sk)"

subsection \<open>The callback table and sequences of calls\<close>

text \<open>
  The table \<open>tcp_ahs\<close> registers \<open>init\<close> and six further callbacks. A call of one of
  the six is a value of \<open>call\<close>; \<open>tcp_ahs_ops\<close> runs the registered handler on the
  socket and \<open>run_calls\<close> runs a sequence of calls from left to right.
\<close>

datatype 'ev call =
    Ssthresh
  | Cong_avoid u32 u32
  | Cwnd_event 'ev
  | Pkts_acked u32 s32
  | Set_state u8
  | Undo_cwnd

fun tcp_ahs_ops :: "veno \<Rightarrow> sock \<Rightarrow> 'ev call \<Rightarrow> sock" where
  "tcp_ahs_ops v sk Ssthresh = snd (tcp_ahs_ssthresh sk)"
| "tcp_ahs_ops v sk (Cong_avoid ack acked) = tcp_ahs_cong_avoid v sk ack acked"
| "tcp_ahs_ops v sk (Cwnd_event event) = tcp_ahs_cwnd_event sk event"
| "tcp_ahs_ops v sk (Pkts_acked cnt rtt_us) = tcp_ahs_pkts_acked sk cnt rtt_us"
| "tcp_ahs_ops v sk (Set_state ca_state) = tcp_ahs_state sk ca_state"
| "tcp_ahs_ops v sk Undo_cwnd = snd (tcp_ahs_undo_cwnd sk)"

definition run_calls :: "veno \<Rightarrow> sock \<Rightarrow> 'ev call list \<Rightarrow> sock" where
  "run_calls v sk cs = foldl (tcp_ahs_ops v) sk cs"

text \<open>
  A sequence of acknowledgements alone, each with its count and its RTT sample, without
  the baseline in sight.
\<close>

definition pkts_acked_seq :: "sock \<Rightarrow> (u32 \<times> s32) list \<Rightarrow> sock" where
  "pkts_acked_seq sk acks =
     foldl (\<lambda>s (cnt, rtt_us). tcp_ahs_pkts_acked s cnt rtt_us) sk acks"

text \<open>
  What the baseline algorithm does to the private area is outside this file. A baseline
  that leaves the private area of the connection as it found it satisfies
  \<open>veno_keeps_ca\<close>.
\<close>

definition veno_keeps_ca :: "veno \<Rightarrow> bool" where
  "veno_keeps_ca v = (\<forall>sk ack acked. inet_csk_ca (v sk ack acked) = inet_csk_ca sk)"


text \<open>
  A second stand-in: additive increase of the window by one segment, private area
  untouched.
\<close>

definition veno_incr :: veno where
  "veno_incr sk ack acked = sk\<lparr>tcp_sk := (tcp_sk sk)\<lparr>snd_cwnd := snd_cwnd (tcp_sk sk) + 1\<rparr>\<rparr>"

text \<open>A socket whose memory is all zero, as a freshly allocated one is.\<close>

definition sock_zero :: sock where
  "sock_zero =
     \<lparr>tcp_sk = \<lparr>snd_cwnd = 0, snd_ssthresh = 0\<rparr>,
      inet_csk_ca = \<lparr>ahs_en = 0, if_cong = 0, rtt_min = 0, rtt = 0, ezs_en = 0\<rparr>\<rparr>"

section \<open>Properties\<close>

subsection \<open>What each handler does to the private area\<close>

lemma pkts_acked_ca:
  "inet_csk_ca (tcp_ahs_pkts_acked sk cnt r) =
     (if 0 < sint r
      then (inet_csk_ca sk)\<lparr>rtt := r, rtt_min := min (rtt_min (inet_csk_ca sk)) r\<rparr>
      else (inet_csk_ca sk)
             \<lparr>rtt_min := min (rtt_min (inet_csk_ca sk)) (rtt (inet_csk_ca sk))\<rparr>)"
  by (simp add: tcp_ahs_pkts_acked_def Let_def)

text \<open>
  A call reaches the baseline only through \<open>cong_avoid\<close>, and only when \<open>ezs_en\<close> is
  zero. Where the baseline keeps the private area, or \<open>ezs_en\<close> is not zero, a call
  does to the private area what the handler's own assignments do.
\<close>

lemma ops_ca:
  assumes "veno_keeps_ca v \<or> ezs_en (inet_csk_ca sk) \<noteq> 0"
  shows "inet_csk_ca (tcp_ahs_ops v sk c) =
    (case c of
       Pkts_acked cnt r \<Rightarrow> inet_csk_ca (tcp_ahs_pkts_acked sk cnt r)
     | Set_state st \<Rightarrow> (inet_csk_ca sk)\<lparr>ahs_en := 1\<rparr>
     | _ \<Rightarrow> inet_csk_ca sk)"
  using assms
  by (cases c)
     (auto simp: veno_keeps_ca_def tcp_ahs_ssthresh_def tcp_ahs_undo_cwnd_def
        tcp_ahs_cong_avoid_def tcp_ahs_cwnd_event_def tcp_ahs_state_def)

lemma run_calls_invariant:
  fixes cs :: "'ev call list"
  assumes step: "\<And>s (c :: 'ev call). I s \<Longrightarrow> I (tcp_ahs_ops v s c)"
    and init: "I sk"
  shows "I (run_calls v sk cs)"
  using init unfolding run_calls_def
proof (induction cs arbitrary: sk)
  case Nil
  then show ?case by simp
next
  case (Cons c cs)
  from Cons.prems have "I (tcp_ahs_ops v sk c)" by (rule step)
  then show ?case by (simp add: Cons.IH)
qed

lemma ops_ezs_en:
  assumes "veno_keeps_ca v \<or> ezs_en (inet_csk_ca s) \<noteq> 0"
  shows "ezs_en (inet_csk_ca (tcp_ahs_ops v s c)) = ezs_en (inet_csk_ca s)"
  by (simp add: ops_ca [OF assms] pkts_acked_ca split: call.split)

lemma ops_rtt_order:
  assumes "veno_keeps_ca v \<or> ezs_en (inet_csk_ca s) \<noteq> 0"
    and "rtt_min (inet_csk_ca s) \<le> rtt (inet_csk_ca s)"
  shows "rtt_min (inet_csk_ca (tcp_ahs_ops v s c)) \<le> rtt (inet_csk_ca (tcp_ahs_ops v s c))"
  using assms(2) by (simp add: ops_ca [OF assms(1)] pkts_acked_ca split: call.split)

lemma ops_ahs_en:
  assumes "veno_keeps_ca v \<or> ezs_en (inet_csk_ca s) \<noteq> 0"
    and "ahs_en (inet_csk_ca s) = 1"
  shows "ahs_en (inet_csk_ca (tcp_ahs_ops v s c)) = 1"
  using assms(2) by (simp add: ops_ca [OF assms(1)] pkts_acked_ca split: call.split)

lemma ops_if_cong:
  assumes "veno_keeps_ca v \<or> ezs_en (inet_csk_ca s) \<noteq> 0"
  shows "if_cong (inet_csk_ca (tcp_ahs_ops v s c)) = if_cong (inet_csk_ca s)"
  by (simp add: ops_ca [OF assms(1)] pkts_acked_ca split: call.split)

subsection \<open>Initialisation\<close>

text \<open>
  C5. After \<open>on_init\<close> on any connection the state has \<open>enabled\<close> set
  (\<open>ahs_en = 1\<close>), \<open>congestion_observed\<close> clear (\<open>if_cong = 0\<close>), and
  \<open>min_rtt = last_rtt = 1 second\<close>, that is 1000000 microseconds.
\<close>

theorem tcp_ahs_init_state:
  "ahs_en (inet_csk_ca (tcp_ahs_init sk)) = 1 \<and>
   if_cong (inet_csk_ca (tcp_ahs_init sk)) = 0 \<and>
   rtt_min (inet_csk_ca (tcp_ahs_init sk)) = 1000000 \<and>
   rtt (inet_csk_ca (tcp_ahs_init sk)) = 1000000"
  by (simp add: tcp_ahs_init_def TCP_AHS_INIT_RTT_def)

subsection \<open>The two queries\<close>

text \<open>
  C4. For every connection state, also one that \<open>on_init\<close> never touched, \<open>ssthresh\<close>
  and \<open>undo_cwnd\<close> both return 65000 and leave the private state and the window fields
  as they were.
\<close>

theorem queries_return_static_window:
  "tcp_ahs_ssthresh sk = (65000, sk) \<and> tcp_ahs_undo_cwnd sk = (65000, sk)"
  by (simp add: tcp_ahs_ssthresh_def tcp_ahs_undo_cwnd_def DEFAULT_AHS_WINDOW_SIZE_def)

subsection \<open>Acknowledgements\<close>

text \<open>
  C10. \<open>on_ack_with_rtt\<close> does not depend on its \<open>packets_acked\<close> argument: from the
  same socket and with the same RTT sample, two calls with different counts end in the
  same socket (private state and window alike).
\<close>

theorem pkts_acked_ignores_cnt:
  "tcp_ahs_pkts_acked sk cnt rtt_us = tcp_ahs_pkts_acked sk cnt' rtt_us"
  by (simp add: tcp_ahs_pkts_acked_def)

text \<open>
  C8. A call of \<open>on_ack_with_rtt\<close> whose RTT sample is zero or negative leaves
  \<open>last_rtt\<close> with the value it had before the call.
\<close>

theorem pkts_acked_keeps_rtt:
  "sint rtt_us \<le> 0 \<Longrightarrow>
   rtt (inet_csk_ca (tcp_ahs_pkts_acked sk cnt rtt_us)) = rtt (inet_csk_ca sk)"
  by (simp add: pkts_acked_ca)

theorem pkts_acked_keeps_rtt_witness:
  "sint (- 1 :: s32) \<le> 0 \<and>
   rtt (inet_csk_ca (tcp_ahs_pkts_acked (tcp_ahs_init sock_zero) 3 (- 1))) = 1000000 \<and>
   sint (0 :: s32) \<le> 0 \<and>
   rtt (inet_csk_ca (tcp_ahs_pkts_acked (tcp_ahs_init sock_zero) 3 0)) = 1000000"
proof -
  have n: "sint (- 1 :: s32) \<le> 0" by simp
  have z: "sint (0 :: s32) \<le> 0" by simp
  have r: "rtt (inet_csk_ca (tcp_ahs_init sock_zero)) = 1000000"
    by (simp add: tcp_ahs_init_def TCP_AHS_INIT_RTT_def)
  from pkts_acked_keeps_rtt [OF n, of "tcp_ahs_init sock_zero" 3]
       pkts_acked_keeps_rtt [OF z, of "tcp_ahs_init sock_zero" 3] n z r
  show ?thesis by simp
qed

subsection \<open>The running minimum\<close>

lemma Min_insert_min:
  fixes m :: "'a::linorder"
  shows "finite P \<Longrightarrow> Min (insert (min m r) P) = Min (insert m (insert r P))"
  by (cases "P = {}") (simp_all add: min.assoc)

text \<open>A strictly positive \<open>s32\<close> reads the same signed and unsigned.\<close>

lemma uint_eq_sint_pos:
  fixes r :: "'a::len word"
  assumes "0 < sint r"
  shows "uint r = sint r"
proof -
  have "sint r < 2 ^ LENGTH('a)"
    by (rule less_le_trans [OF sint_lt]) simp
  then have "take_bit LENGTH('a) (sint r) = sint r"
    using assms by (simp add: take_bit_int_eq_self)
  then show ?thesis by (simp add: uint_sint)
qed

text \<open>
  From a state with \<open>rtt_min \<le> rtt\<close>, a sequence of acknowledgements takes \<open>rtt_min\<close>
  to the least of its old value and the positive samples. The order is the unsigned one.
\<close>

lemma pkts_acked_seq_min:
  "rtt_min (inet_csk_ca sk) \<le> rtt (inet_csk_ca sk) \<Longrightarrow>
   rtt_min (inet_csk_ca (pkts_acked_seq sk acks)) =
     Min (insert (rtt_min (inet_csk_ca sk)) {r \<in> snd ` set acks. 0 < sint r})"
proof (induction acks arbitrary: sk)
  case Nil
  then show ?case by (simp add: pkts_acked_seq_def)
next
  case (Cons a acks)
  obtain cnt r where a: "a = (cnt, r)" by (cases a)
  let ?sk = "tcp_ahs_pkts_acked sk cnt r"
  let ?P = "{r \<in> snd ` set acks. 0 < sint r}"
  have fin: "finite ?P" by simp
  have inv: "rtt_min (inet_csk_ca ?sk) \<le> rtt (inet_csk_ca ?sk)"
    by (simp add: pkts_acked_ca)
  have step: "pkts_acked_seq sk (a # acks) = pkts_acked_seq ?sk acks"
    by (simp add: pkts_acked_seq_def a)
  have ih: "rtt_min (inet_csk_ca (pkts_acked_seq ?sk acks)) =
      Min (insert (rtt_min (inet_csk_ca ?sk)) ?P)"
    by (rule Cons.IH [OF inv])
  show ?case
  proof (cases "0 < sint r")
    case True
    then have set_eq: "{x \<in> snd ` set (a # acks). 0 < sint x} = insert r ?P"
      by (auto simp: a)
    have "rtt_min (inet_csk_ca ?sk) = min (rtt_min (inet_csk_ca sk)) r"
      using True by (simp add: pkts_acked_ca)
    then have "Min (insert (rtt_min (inet_csk_ca ?sk)) ?P) =
        Min (insert (rtt_min (inet_csk_ca sk)) (insert r ?P))"
      by (simp only: Min_insert_min [OF fin])
    then show ?thesis by (simp only: step ih set_eq)
  next
    case False
    then have set_eq: "{x \<in> snd ` set (a # acks). 0 < sint x} = ?P"
      by (auto simp: a)
    have "rtt_min (inet_csk_ca ?sk) = rtt_min (inet_csk_ca sk)"
      using False Cons.prems by (simp add: pkts_acked_ca min_def)
    then show ?thesis by (simp only: step ih set_eq)
  qed
qed

lemma uint_Min_insert_pos:
  fixes m :: u32
  assumes "finite P" "\<forall>r\<in>P. 0 < sint r"
  shows "uint (Min (insert m P)) = Min (insert (uint m) (sint ` P))"
proof -
  have "uint (Min (insert m P)) = Min (uint ` insert m P)"
    by (rule mono_Min_commute) (auto simp: mono_def word_le_def assms(1))
  moreover have "uint ` P = sint ` P"
  proof (rule image_cong [OF refl])
    fix r assume "r \<in> P"
    then have "0 < sint r" using assms(2) by blast
    then show "uint r = sint r"
      by (rule uint_eq_sint_pos)
  qed
  ultimately show ?thesis by simp
qed

text \<open>
  C3. After \<open>on_init\<close> and any finite sequence of \<open>on_ack_with_rtt\<close> calls, \<open>min_rtt\<close>
  is the minimum of the initial estimate of 1 second (1000000 microseconds) and all
  strictly positive RTT samples of the sequence. Samples are \<open>s32\<close> values, read signed;
  \<open>min_rtt\<close> is a \<open>u32\<close>, read unsigned.
\<close>

theorem min_rtt_running_minimum:
  "uint (rtt_min (inet_csk_ca (pkts_acked_seq (tcp_ahs_init sk) acks))) =
     Min (insert 1000000 (sint ` {r \<in> snd ` set acks. 0 < sint r}))"
proof -
  let ?s = "tcp_ahs_init sk"
  have "rtt_min (inet_csk_ca ?s) \<le> rtt (inet_csk_ca ?s)"
    by (simp add: tcp_ahs_init_def)
  then have "rtt_min (inet_csk_ca (pkts_acked_seq ?s acks)) =
      Min (insert (rtt_min (inet_csk_ca ?s)) {r \<in> snd ` set acks. 0 < sint r})"
    by (rule pkts_acked_seq_min)
  moreover have "rtt_min (inet_csk_ca ?s) = 1000000"
    by (simp add: tcp_ahs_init_def TCP_AHS_INIT_RTT_def)
  ultimately show ?thesis
    by (simp add: uint_Min_insert_pos)
qed

text \<open>The spec's scenario: samples of 50 ms, 20 ms and \<open>-1\<close> leave 20 ms.\<close>

theorem min_rtt_running_minimum_witness:
  "Min (insert 1000000
      (sint ` {r \<in> snd ` set [(1, 50000), (1, 20000), (1, - 1 :: s32)]. 0 < sint r}))
     = 20000 \<and>
   uint (rtt_min (inet_csk_ca (pkts_acked_seq (tcp_ahs_init sock_zero)
      [(1, 50000), (1, 20000), (1, - 1)]))) = 20000"
  using min_rtt_running_minimum [of sock_zero "[(1, 50000), (1, 20000), (1, - 1)]"]
  by (simp add: pkts_acked_seq_def tcp_ahs_pkts_acked_def tcp_ahs_init_def sock_zero_def
      TCP_AHS_INIT_RTT_def Let_def)

subsection \<open>Sequences of handler calls\<close>

text \<open>
  The three relations below hold after \<open>on_init\<close> and are kept by every call that
  stays within the handlers of this file: that is the case when \<open>ezs_en\<close> is not zero,
  so that \<open>cong_avoid\<close> forces the window itself, and also when the baseline it hands
  over to keeps the private area.
\<close>

lemma invariants_without_baseline_writes:
  fixes cs :: "'ev call list"
  assumes "veno_keeps_ca v \<or> ezs_en (inet_csk_ca sk) \<noteq> 0"
  shows "rtt_min (inet_csk_ca (run_calls v (tcp_ahs_init sk) cs))
           \<le> rtt (inet_csk_ca (run_calls v (tcp_ahs_init sk) cs))"
    and "ahs_en (inet_csk_ca (run_calls v (tcp_ahs_init sk) cs)) = 1"
    and "if_cong (inet_csk_ca (run_calls v (tcp_ahs_init sk) cs)) = 0"
proof -
  let ?G = "\<lambda>s. veno_keeps_ca v \<or> ezs_en (inet_csk_ca s) \<noteq> 0"
  let ?I = "\<lambda>s. ?G s \<and> rtt_min (inet_csk_ca s) \<le> rtt (inet_csk_ca s) \<and>
      ahs_en (inet_csk_ca s) = 1 \<and> if_cong (inet_csk_ca s) = 0"
  have "?I (run_calls v (tcp_ahs_init sk) cs)"
  proof (rule run_calls_invariant [where I = ?I])
    show "?I (tcp_ahs_init sk)"
      using assms by (simp add: tcp_ahs_init_def)
  next
    fix s :: sock and c :: "'ev call"
    assume i: "?I s"
    then have g: "?G s" by blast
    from i show "?I (tcp_ahs_ops v s c)"
      by (simp add: ops_ezs_en [OF g] ops_rtt_order [OF g] ops_ahs_en [OF g]
          ops_if_cong [OF g])
  qed
  then show "rtt_min (inet_csk_ca (run_calls v (tcp_ahs_init sk) cs))
           \<le> rtt (inet_csk_ca (run_calls v (tcp_ahs_init sk) cs))"
    and "ahs_en (inet_csk_ca (run_calls v (tcp_ahs_init sk) cs)) = 1"
    and "if_cong (inet_csk_ca (run_calls v (tcp_ahs_init sk) cs)) = 0"
    by blast+
qed

text \<open>\<open>on_state_transition\<close> sets the enable flag from any state, for any phase.\<close>

lemma tcp_ahs_state_enables:
  "ahs_en (inet_csk_ca (tcp_ahs_state s ca_state)) = 1"
  by (simp add: tcp_ahs_state_def)

text \<open>
  No handler writes \<open>ezs_en\<close>, so on a socket whose memory was zero it stays zero, and
  \<open>cong_avoid\<close> is then the call of the baseline and nothing else, whatever the enable
  flag says.
\<close>

lemma cong_avoid_is_baseline:
  "ezs_en (inet_csk_ca sk) = 0 \<Longrightarrow> tcp_ahs_cong_avoid v sk ack acked = v sk ack acked"
  by (simp add: tcp_ahs_cong_avoid_def)




subsection \<open>Congestion avoidance and the forced window\<close>

text \<open>
  Where the window is forced: always by \<open>on_ack_with_rtt\<close> and \<open>on_cwnd_event\<close>; by
  \<open>cong_avoid\<close> when the member it tests, \<open>ezs_en\<close>, is not zero. The enable flag
  \<open>ahs_en\<close> plays no part in any of the three.
\<close>

lemma snd_cwnd_forced:
  "snd_cwnd (tcp_sk (tcp_ahs_pkts_acked sk cnt rtt_us)) = 65000"
  "snd_cwnd (tcp_sk (tcp_ahs_cwnd_event sk event)) = 65000"
  "ezs_en (inet_csk_ca sk) \<noteq> 0 \<Longrightarrow>
     snd_cwnd (tcp_sk (tcp_ahs_cong_avoid v sk ack acked)) = 65000"
  by (simp_all add: tcp_ahs_pkts_acked_def tcp_ahs_cwnd_event_def tcp_ahs_cong_avoid_def
      DEFAULT_AHS_WINDOW_SIZE_def Let_def)

text \<open>Had the handler tested the enable flag, it would branch on it as described.\<close>

lemma cong_avoid_if_same_flag:
  "ezs_en (inet_csk_ca sk) = ahs_en (inet_csk_ca sk) \<Longrightarrow>
   tcp_ahs_cong_avoid v sk ack acked =
     (if ahs_en (inet_csk_ca sk) = 0 then v sk ack acked
      else sk\<lparr>tcp_sk := (tcp_sk sk)\<lparr>snd_cwnd := 65000\<rparr>\<rparr>)"
  by (simp add: tcp_ahs_cong_avoid_def DEFAULT_AHS_WINDOW_SIZE_def)

text \<open>
  C1. The claim: \<open>cong_avoid\<close> hands over to the baseline algorithm exactly when the
  enable flag is clear, and otherwise sets the window to 65000. The handler tests
  \<open>ezs_en\<close>, not the enable flag \<open>ahs_en\<close>. On a zero-filled socket after \<open>on_init\<close>
  the enable flag is set and \<open>ezs_en\<close> is zero: the handler hands over to the baseline,
  and with the additive-increase stand-in the window ends at 1, not at 65000.
\<close>

theorem cong_avoid_tests_ezs_en:
  "ahs_en (inet_csk_ca (tcp_ahs_init sock_zero)) = 1 \<and>
   tcp_ahs_cong_avoid veno_incr (tcp_ahs_init sock_zero) 7 1 =
     veno_incr (tcp_ahs_init sock_zero) 7 1 \<and>
   snd_cwnd (tcp_sk (tcp_ahs_cong_avoid veno_incr (tcp_ahs_init sock_zero) 7 1)) = 1"
  by (simp add: tcp_ahs_cong_avoid_def tcp_ahs_init_def sock_zero_def veno_incr_def)

text \<open>
  C2. The claim: with the enable flag set, a call of \<open>on_ack_with_rtt\<close>,
  \<open>on_cwnd_event\<close> or \<open>cong_avoid\<close> leaves the window at 65000. It holds for the first
  two. For \<open>cong_avoid\<close> it fails on the same test of \<open>ezs_en\<close>: after \<open>on_init\<close> on a
  zero-filled socket and one acknowledgement the enable flag is set and the window is
  65000, and \<open>cong_avoid\<close> then hands over to the baseline, whose additive-increase
  stand-in moves the window to 65001.
\<close>

theorem cong_avoid_window_not_static:
  "ahs_en (inet_csk_ca (tcp_ahs_pkts_acked (tcp_ahs_init sock_zero) 1 50000)) = 1 \<and>
   snd_cwnd (tcp_sk (tcp_ahs_pkts_acked (tcp_ahs_init sock_zero) 1 50000)) = 65000 \<and>
   snd_cwnd (tcp_sk (tcp_ahs_cong_avoid veno_incr
      (tcp_ahs_pkts_acked (tcp_ahs_init sock_zero) 1 50000) 7 1)) = 65001"
  by (simp add: tcp_ahs_cong_avoid_def tcp_ahs_pkts_acked_def tcp_ahs_init_def
      sock_zero_def veno_incr_def DEFAULT_AHS_WINDOW_SIZE_def Let_def)

end
